theory Spec2Isabelle
  imports Main
begin

section \<open>Package command: running executables and shell scripts\<close>

text \<open>
  A shallow embedding of \<^verbatim>\<open>pkg/command/command.go\<close>. The operating system is
  not part of the program: what its calls answer during one launch (the parent's
  environment, whether a pipe or the start fails, what the copy loops and the process
  report) is a value of the record \<open>platform\<close>, and every function that talks to the
  system returns, next to its result, the list of calls it made, in program order.
\<close>

subsection \<open>Error values\<close>

text \<open>
  \<open>Raw\<close> is an error produced by the system (os/exec, io). \<open>Wrap e m\<close> is
  \<^verbatim>\<open>errors.Wrap(e, m)\<close> and \<^verbatim>\<open>errors.Wrapf\<close> of github.com/pkg/errors: a new error
  that keeps \<open>e\<close> as its cause. \<open>Errorf m\<close> is \<^verbatim>\<open>fmt.Errorf\<close> with \<^verbatim>\<open>%v\<close> verbs only:
  an error that holds nothing but its text.
\<close>

datatype err = Raw string | Wrap err string | Errorf string

text \<open>The \<^verbatim>\<open>Error()\<close> method: a wrapper prints its message, a colon and its cause.\<close>

fun Error :: "err \<Rightarrow> string" where
  "Error (Raw s) = s"
| "Error (Wrap e m) = m @ '': '' @ Error e"
| "Error (Errorf s) = s"

text \<open>\<^verbatim>\<open>errors.Cause\<close>: follow the wrappers down to the first error that is not one.\<close>

fun Cause :: "err \<Rightarrow> err" where
  "Cause (Wrap e m) = Cause e"
| "Cause e = e"

text \<open>Every error reachable from an error by unwrapping, the error itself first.\<close>

fun chain :: "err \<Rightarrow> err list" where
  "chain (Wrap e m) = Wrap e m # chain e"
| "chain e = [e]"

text \<open>The verb \<^verbatim>\<open>%v\<close> applied to an error variable: a nil error prints as \<^verbatim>\<open><nil>\<close>.\<close>

fun fmt_v :: "err option \<Rightarrow> string" where
  "fmt_v None = ''<nil>''"
| "fmt_v (Some e) = Error e"

definition apos :: string where
  "apos = [CHR 0x27]"

subsection \<open>Strings\<close>

fun strings_Join :: "string list \<Rightarrow> string \<Rightarrow> string" where
  "strings_Join [] sep = []"
| "strings_Join [x] sep = x"
| "strings_Join (x # y # ys) sep = x @ sep @ strings_Join (y # ys) sep"

fun strings_HasPrefix :: "string \<Rightarrow> string \<Rightarrow> bool" where
  "strings_HasPrefix s [] = True"
| "strings_HasPrefix [] (p # ps) = False"
| "strings_HasPrefix (c # s) (p # ps) = (c = p \<and> strings_HasPrefix s ps)"

text \<open>\<^verbatim>\<open>strings.Contains(s, substr)\<close>: bytes are compared as they are.\<close>

fun strings_Contains :: "string \<Rightarrow> string \<Rightarrow> bool" where
  "strings_Contains [] sub = (sub = [])"
| "strings_Contains (c # s) sub = (strings_HasPrefix (c # s) sub \<or> strings_Contains s sub)"

subsection \<open>Data\<close>

text \<open>
  A writer is known by its identity only: the two standard streams of the parent
  process, or a sink the caller supplied.
\<close>

datatype writer = os_Stdout | os_Stderr | Sink nat

text \<open>
  The fields of \<^verbatim>\<open>exec.Cmd\<close> the package reads or writes. \<open>Env = None\<close> is the nil
  slice; \<open>Stdin = None\<close> is no reader, \<open>Some s\<close> a buffer holding the bytes \<open>s\<close>.
\<close>

record Cmd =
  Path :: string
  Args :: "string list"
  Dir :: string
  Env :: "string list option"
  Stdin :: "string option"

text \<open>The struct \<^verbatim>\<open>Command\<close>; a nil writer is \<open>None\<close>.\<close>

record Command =
  dir :: string
  stdout :: "writer option"
  stderr :: "writer option"
  env :: "string list"

definition SetDir :: "string \<Rightarrow> Command \<Rightarrow> Command" where
  "SetDir d c = c\<lparr>dir := d\<rparr>"

definition SetEnv :: "string list \<Rightarrow> Command \<Rightarrow> Command" where
  "SetEnv e c = c\<lparr>env := e\<rparr>"

definition Stdout :: "writer option \<Rightarrow> Command \<Rightarrow> Command" where
  "Stdout w c = c\<lparr>stdout := w\<rparr>"

definition Stderr :: "writer option \<Rightarrow> Command \<Rightarrow> Command" where
  "Stderr w c = c\<lparr>stderr := w\<rparr>"

text \<open>
  \<^verbatim>\<open>exec.Command(name, arg...)\<close>, the default value of the package variable
  \<^verbatim>\<open>ExecCommand\<close>: the argument vector starts with the name, and the environment is
  left nil. A name without a path separator is looked up on the PATH and the path is
  what the lookup found; \<open>lookPath\<close> is the answer of \<^verbatim>\<open>exec.LookPath\<close>. When the
  lookup fails the path stays the name; the failure is kept in the command and reported
  by \<^verbatim>\<open>Start\<close>, so it is an answer of the platform below.
\<close>

definition exec_Command :: "(string \<Rightarrow> string option) \<Rightarrow> string \<Rightarrow> string list \<Rightarrow> Cmd" where
  "exec_Command lookPath name arg =
     \<lparr>Path = (if name \<noteq> [] \<and> CHR ''/'' \<notin> set name
              then (case lookPath name of Some found \<Rightarrow> found | None \<Rightarrow> name)
              else name),
      Args = name # arg, Dir = [], Env = None, Stdin = None\<rparr>"

text \<open>
  The launcher the package's tests put into \<^verbatim>\<open>ExecCommand\<close>: it re-runs the test
  binary (\<open>self\<close> is \<^verbatim>\<open>os.Args[0]\<close>) and replaces the environment by one entry.
\<close>

definition helperCommand ::
  "(string \<Rightarrow> string option) \<Rightarrow> string \<Rightarrow> string \<Rightarrow> string list \<Rightarrow> Cmd" where
  "helperCommand lookPath self command s =
     (exec_Command lookPath self ([''-test.run=TestHelperProcess'', ''--'', command] @ s))
       \<lparr>Env := Some [''GO_WANT_HELPER_PROCESS=1'']\<rparr>"

text \<open>What the system answers during one launch.\<close>

record platform =
  os_Environ :: "string list"
  errStdoutPipe :: "err option"
  errStderrPipe :: "err option"
  errStart :: "err option"
  copyStdout :: "err option"
  copyStderr :: "err option"
  errWait :: "err option"

datatype stream = StdoutStream | StderrStream

text \<open>
  The calls made to the outside, in program order: a log line, \<^verbatim>\<open>cmd.StdoutPipe()\<close>,
  \<^verbatim>\<open>cmd.StderrPipe()\<close>, \<^verbatim>\<open>cmd.Start()\<close> with the command as it is at that moment,
  a goroutine running \<^verbatim>\<open>io.Copy(w, pipe)\<close>, and \<^verbatim>\<open>execution.Wait()\<close>.
\<close>

datatype event =
    Info string
  | StdoutPipe
  | StderrPipe
  | Start Cmd
  | GoCopy writer stream
  | Join

text \<open>
  The struct \<^verbatim>\<open>execution\<close> as \<^verbatim>\<open>startCmd\<close> and \<^verbatim>\<open>runCmd\<close> use it: the command and
  the two slots the copy goroutines write. Its wait group only orders the goroutines
  and the join, and has no field here.
\<close>

record execution =
  cmd :: Cmd
  errCopyStdout :: "err option"
  errCopyStderr :: "err option"

subsection \<open>The environment of the child\<close>

text \<open>
  \<^verbatim>\<open>len(cmd.Env)\<close>: the nil slice and the empty slice both have length 0.
\<close>

definition lenEnv :: "Cmd \<Rightarrow> nat" where
  "lenEnv xc = (case Env xc of None \<Rightarrow> 0 | Some es \<Rightarrow> length es)"

definition appendEnvironment :: "string list \<Rightarrow> Cmd \<Rightarrow> string list \<Rightarrow> Cmd" where
  "appendEnvironment environ xc e =
     (if length e > 0 then
        (let xc1 = (if lenEnv xc = 0 then xc\<lparr>Env := Some environ\<rparr> else xc)
         in xc1\<lparr>Env := Some ((case Env xc1 of None \<Rightarrow> [] | Some es \<Rightarrow> es) @ e)\<rparr>)
      else xc)"

text \<open>
  Reading a variable from a list of entries as os/exec does, in the words of the comment
  in \<^verbatim>\<open>appendEnvironment\<close>: of several entries with one key only the last one is
  used. The key of an entry is what stands before its first equals sign.
\<close>

definition entryKey :: "string \<Rightarrow> string" where
  "entryKey e = takeWhile (\<lambda>c. c \<noteq> CHR ''='') e"

definition entryValue :: "string \<Rightarrow> string" where
  "entryValue e = drop 1 (dropWhile (\<lambda>c. c \<noteq> CHR ''='') e)"

fun getenv :: "string \<Rightarrow> string list \<Rightarrow> string option" where
  "getenv k [] = None"
| "getenv k (e # es) =
     (case getenv k es of
        Some v \<Rightarrow> Some v
      | None \<Rightarrow> (if CHR ''='' \<in> set e \<and> entryKey e = k then Some (entryValue e) else None))"

subsection \<open>Starting and joining\<close>

definition prepareOut :: "writer option \<Rightarrow> writer option \<Rightarrow> writer \<times> writer" where
  "prepareOut out er =
     ((case out of None \<Rightarrow> os_Stdout | Some w \<Rightarrow> w),
      (case er of None \<Rightarrow> os_Stderr | Some w \<Rightarrow> w))"

definition cmdPipes :: "platform \<Rightarrow> Cmd \<Rightarrow> err option \<times> event list" where
  "cmdPipes p xc =
     (case errStdoutPipe p of
        Some e \<Rightarrow> (Some (Wrap e ''getting Stdout pipe failed''), [StdoutPipe])
      | None \<Rightarrow>
          (case errStderrPipe p of
             Some e \<Rightarrow> (Some (Wrap e ''getting Stderr pipe failed''), [StdoutPipe, StderrPipe])
           | None \<Rightarrow> (None, [StdoutPipe, StderrPipe])))"

text \<open>
  \<^verbatim>\<open>startCmd\<close> returns \<^verbatim>\<open>(nil, err)\<close> or \<^verbatim>\<open>(&execution, nil)\<close>: \<open>Inl\<close> is the first,
  \<open>Inr\<close> the second.
\<close>

definition startCmd :: "platform \<Rightarrow> Cmd \<Rightarrow> writer \<Rightarrow> writer \<Rightarrow> (err + execution) \<times> event list" where
  "startCmd p xc out er =
     (case cmdPipes p xc of
        (Some e, tr) \<Rightarrow> (Inl (Wrap e ''getting command pipes failed''), tr)
      | (None, tr) \<Rightarrow>
          (case errStart p of
             Some e \<Rightarrow> (Inl (Wrap e ''starting command failed''), tr @ [Start xc])
           | None \<Rightarrow>
               (Inr \<lparr>cmd = xc, errCopyStdout = None, errCopyStderr = None\<rparr>,
                tr @ [Start xc, GoCopy out StdoutStream, GoCopy er StderrStream])))"

definition handle_of :: "err + execution \<Rightarrow> execution option" where
  "handle_of r = (case r of Inl e \<Rightarrow> None | Inr x \<Rightarrow> Some x)"

definition error_of :: "err + execution \<Rightarrow> err option" where
  "error_of r = (case r of Inl e \<Rightarrow> Some e | Inr x \<Rightarrow> None)"

text \<open>
  Modelled from the spec: the method \<^verbatim>\<open>Wait\<close> of \<^verbatim>\<open>execution\<close> (the type and its
  method are declared outside the given sources). The join waits for both drain tasks
  and for the exit of the process; after it the two copy-error slots hold what the
  copy loops returned, and its own result is the exit error of the process.
\<close>

definition Wait :: "platform \<Rightarrow> execution \<Rightarrow> (execution \<times> err option) \<times> event list" where
  "Wait p x =
     ((x\<lparr>errCopyStdout := copyStdout p, errCopyStderr := copyStderr p\<rparr>, errWait p), [Join])"

definition runCmd :: "platform \<Rightarrow> Cmd \<Rightarrow> writer \<Rightarrow> writer \<Rightarrow> err option \<times> event list" where
  "runCmd p xc out er =
     (case startCmd p xc out er of
        (Inl e, tr) \<Rightarrow> (Some e, tr)
      | (Inr x, tr) \<Rightarrow>
          (case Wait p x of
             ((x1, werr), tr1) \<Rightarrow>
               (if errCopyStdout x1 \<noteq> None \<or> errCopyStderr x1 \<noteq> None then
                  (Some (Errorf (''failed to capture stdout/stderr: '' @ apos
                           @ fmt_v (errCopyStdout x1) @ apos @ ''/'' @ apos
                           @ fmt_v (errCopyStderr x1) @ apos)),
                   tr @ tr1)
                else
                  (case werr of
                     Some e \<Rightarrow> (Some (Wrap e ''cmd.Run() failed''), tr @ tr1)
                   | None \<Rightarrow> (None, tr @ tr1)))))"

subsection \<open>The public operations\<close>

text \<open>
  The first argument is the value of the package variable \<^verbatim>\<open>ExecCommand\<close> at the
  time of the call.
\<close>

definition RunShell ::
  "(string \<Rightarrow> string list \<Rightarrow> Cmd) \<Rightarrow> platform \<Rightarrow> Command \<Rightarrow> string \<Rightarrow> string
     \<Rightarrow> err option \<times> event list" where
  "RunShell ExecCommand p c shell script =
     (case prepareOut (stdout c) (stderr c) of
        (out, er) \<Rightarrow>
          (let xc = ExecCommand shell [];
               xc = (if length (dir c) > 0 then xc\<lparr>Dir := dir c\<rparr> else xc);
               xc = appendEnvironment (os_Environ p) xc (env c);
               xc = xc\<lparr>Stdin := Some script\<rparr>;
               line = Info (''running shell script: '' @ shell @ '' '' @ script)
           in (case runCmd p xc out er of
                 (Some e, tr) \<Rightarrow>
                   (Some (Wrap e (''running shell script failed with '' @ shell)), line # tr)
               | (None, tr) \<Rightarrow> (None, line # tr))))"

definition RunExecutable ::
  "(string \<Rightarrow> string list \<Rightarrow> Cmd) \<Rightarrow> platform \<Rightarrow> Command \<Rightarrow> string \<Rightarrow> string list
     \<Rightarrow> err option \<times> event list" where
  "RunExecutable ExecCommand p c executable params =
     (case prepareOut (stdout c) (stderr c) of
        (out, er) \<Rightarrow>
          (let xc = ExecCommand executable params;
               xc = (if length (dir c) > 0 then xc\<lparr>Dir := dir c\<rparr> else xc);
               line = Info (''running command: '' @ executable @ '' '' @ strings_Join params '' '');
               xc = appendEnvironment (os_Environ p) xc (env c)
           in (case runCmd p xc out er of
                 (Some e, tr) \<Rightarrow>
                   (Some (Wrap e (''running command '' @ apos @ executable @ apos @ '' failed'')),
                    line # tr)
               | (None, tr) \<Rightarrow> (None, line # tr))))"

definition RunExecutableInBackground ::
  "(string \<Rightarrow> string list \<Rightarrow> Cmd) \<Rightarrow> platform \<Rightarrow> Command \<Rightarrow> string \<Rightarrow> string list
     \<Rightarrow> (err + execution) \<times> event list" where
  "RunExecutableInBackground ExecCommand p c executable params =
     (case prepareOut (stdout c) (stderr c) of
        (out, er) \<Rightarrow>
          (let xc = ExecCommand executable params;
               xc = (if length (dir c) > 0 then xc\<lparr>Dir := dir c\<rparr> else xc);
               line = Info (''running command: '' @ executable @ '' '' @ strings_Join params '' '');
               xc = appendEnvironment (os_Environ p) xc (env c)
           in (case startCmd p xc out er of
                 (Inl e, tr) \<Rightarrow>
                   (Inl (Wrap e (''starting command '' @ apos @ executable @ apos @ '' failed'')),
                    line # tr)
               | (Inr x, tr) \<Rightarrow> (Inr x, line # tr))))"

text \<open>The command handed to \<^verbatim>\<open>cmd.Start()\<close>, if the run got that far.\<close>

fun launched :: "event list \<Rightarrow> Cmd option" where
  "launched [] = None"
| "launched (Start xc # tr) = Some xc"
| "launched (ev # tr) = launched tr"

text \<open>The copy goroutines a trace spawned: which pipe is copied into which writer.\<close>

fun drains :: "event list \<Rightarrow> (stream \<times> writer) list" where
  "drains [] = []"
| "drains (GoCopy w s # tr) = (s, w) # drains tr"
| "drains (ev # tr) = drains tr"




subsection \<open>The output classifier\<close>

text \<open>
  Modelled from the spec: the classifier \<^verbatim>\<open>parseConsoleErrors\<close> and the field
  \<^verbatim>\<open>ErrorCategoryMapping\<close> (the given \<^verbatim>\<open>command.go\<close> has neither; only the test
  \<^verbatim>\<open>TestParseConsoleErrors\<close> names them). The mapping is a list of category labels
  with their patterns, in the order the iteration visits them. The patterns of each
  category are tested as substrings of the line, and the first category with a pattern
  that occurs in the line sets the shared signal; otherwise the signal stays as it is.
  The function from labels to categories belongs to the logging package and is an
  argument.
\<close>

fun firstMatch :: "(string \<times> string list) list \<Rightarrow> string \<Rightarrow> string option" where
  "firstMatch [] line = None"
| "firstMatch ((label, patterns) # rest) line =
     (if list_ex (strings_Contains line) patterns then Some label else firstMatch rest line)"

definition parseConsoleErrors ::
  "(string \<Rightarrow> 'cat) \<Rightarrow> (string \<times> string list) list \<Rightarrow> string \<Rightarrow> 'cat \<Rightarrow> 'cat" where
  "parseConsoleErrors byLabel mapping line signal =
     (case firstMatch mapping line of Some label \<Rightarrow> byLabel label | None \<Rightarrow> signal)"

text \<open>The signal after a sequence of lines, each classified in turn.\<close>

fun feed ::
  "(string \<Rightarrow> 'cat) \<Rightarrow> (string \<times> string list) list \<Rightarrow> string list \<Rightarrow> 'cat \<Rightarrow> 'cat" where
  "feed byLabel mapping [] signal = signal"
| "feed byLabel mapping (line # rest) signal =
     feed byLabel mapping rest (parseConsoleErrors byLabel mapping line signal)"

text \<open>
  Modelled from the spec: the categories the test \<^verbatim>\<open>TestParseConsoleErrors\<close> expects
  for its two labels; the logging package that declares them is outside the given
  sources, and only these three categories are named there.
\<close>

datatype ErrorCategory = ErrorUndefined | ErrorConfiguration | ErrorBuild

definition ErrorCategoryByString :: "string \<Rightarrow> ErrorCategory" where
  "ErrorCategoryByString label =
     (if label = ''config'' then ErrorConfiguration
      else if label = ''build'' then ErrorBuild
      else ErrorUndefined)"

subsection \<open>Values used in examples\<close>

text \<open>
  A platform on which every call succeeds, the zero value \<^verbatim>\<open>Command{}\<close>, and a
  PATH lookup that finds every name under \<^verbatim>\<open>/bin\<close> except one.
\<close>

definition lookBin :: "string \<Rightarrow> string option" where
  "lookBin name = (if name = ''nonexistent'' then None else Some (''/bin/'' @ name))"

definition calm :: "string list \<Rightarrow> platform" where
  "calm environ =
     \<lparr>os_Environ = environ, errStdoutPipe = None, errStderrPipe = None, errStart = None,
      copyStdout = None, copyStderr = None, errWait = None\<rparr>"

definition Command0 :: Command where
  "Command0 = \<lparr>dir = [], stdout = None, stderr = None, env = []\<rparr>"

section \<open>Properties\<close>

subsection \<open>Supporting facts\<close>

lemma getenv_append:
  "getenv k (xs @ ys) = (case getenv k ys of Some v \<Rightarrow> Some v | None \<Rightarrow> getenv k xs)"
  by (induction xs) (auto split: option.splits)

lemma appendEnvironment_fields:
  "Path (appendEnvironment I xc E) = Path xc"
  "Args (appendEnvironment I xc E) = Args xc"
  "Dir (appendEnvironment I xc E) = Dir xc"
  "Stdin (appendEnvironment I xc E) = Stdin xc"
  by (simp_all add: appendEnvironment_def Let_def)

lemma appendEnvironment_Env:
  "Env (appendEnvironment I xc E) =
     (if E = [] then Env xc
      else Some ((if lenEnv xc = 0 then I else the (Env xc)) @ E))"
  by (auto simp: appendEnvironment_def Let_def lenEnv_def split: option.splits)

lemma launched_runCmd:
  "errStdoutPipe p = None \<Longrightarrow> errStderrPipe p = None \<Longrightarrow>
     launched (snd (runCmd p xc out er)) = Some xc"
  by (simp add: runCmd_def Wait_def startCmd_def cmdPipes_def split: option.splits)

lemma RunExecutable_runCmd:
  "RunExecutable EC p c executable params =
     (map_option (\<lambda>e. Wrap e (''running command '' @ apos @ executable @ apos @ '' failed''))
        (fst (runCmd p (appendEnvironment (os_Environ p)
               (if length (dir c) > 0 then (EC executable params)\<lparr>Dir := dir c\<rparr>
                else EC executable params) (env c))
               (fst (prepareOut (stdout c) (stderr c))) (snd (prepareOut (stdout c) (stderr c))))),
      Info (''running command: '' @ executable @ '' '' @ strings_Join params '' '')
      # snd (runCmd p (appendEnvironment (os_Environ p)
               (if length (dir c) > 0 then (EC executable params)\<lparr>Dir := dir c\<rparr>
                else EC executable params) (env c))
               (fst (prepareOut (stdout c) (stderr c))) (snd (prepareOut (stdout c) (stderr c)))))"
  by (simp add: RunExecutable_def Let_def split: prod.splits option.splits)

lemma launched_RunExecutable:
  "errStdoutPipe p = None \<Longrightarrow> errStderrPipe p = None \<Longrightarrow>
     launched (snd (RunExecutable EC p c executable params)) =
       Some (appendEnvironment (os_Environ p)
               (if length (dir c) > 0 then (EC executable params)\<lparr>Dir := dir c\<rparr>
                else EC executable params) (env c))"
  by (simp only: RunExecutable_runCmd snd_conv launched.simps launched_runCmd)

subsection \<open>The environment of the child\<close>

text \<open>
  With the default launcher, the command a run hands to the start has a nil environment
  when there is no override, and otherwise the inherited entries followed by the
  overrides.
\<close>

lemma RunExecutable_default_environment:
  assumes "errStdoutPipe p = None" and "errStderrPipe p = None"
  shows "map_option Env
           (launched (snd (RunExecutable (exec_Command lookPath) p c executable params)))
         = Some (if env c = [] then None else Some (os_Environ p @ env c))"
  using assms
  by (simp add: launched_RunExecutable appendEnvironment_Env lenEnv_def exec_Command_def)

text \<open>
  C1, as stated, for every launch: the child's environment is the inherited one followed
  by the overrides. It fails where the launcher in \<^verbatim>\<open>ExecCommand\<close> hands back a
  command whose environment is already filled, as the launcher of the package's own tests
  does: the environment of the started command is not the inherited entries followed by
  the overrides, and the inherited variable \<^verbatim>\<open>PATH\<close> cannot be read from it.
\<close>

theorem launcher_environment_replaces_inherited:
  "map_option Env
     (launched (snd (RunExecutable (helperCommand lookBin ''/tmp/command.test'')
                       (calm [''PATH=/bin'']) (SetEnv [''DEBUG=true''] Command0) ''env'' [])))
     = Some (Some [''GO_WANT_HELPER_PROCESS=1'', ''DEBUG=true''])
   \<and> [''GO_WANT_HELPER_PROCESS=1'', ''DEBUG=true''] \<noteq> [''PATH=/bin''] @ [''DEBUG=true'']
   \<and> getenv ''PATH'' [''GO_WANT_HELPER_PROCESS=1'', ''DEBUG=true''] = None
   \<and> getenv ''PATH'' ([''PATH=/bin''] @ [''DEBUG=true'']) = Some ''/bin''"
  by (simp add: launched_RunExecutable calm_def SetEnv_def Command0_def helperCommand_def
        exec_Command_def appendEnvironment_def lenEnv_def entryKey_def entryValue_def)

text \<open>
  C1, amended: when the environment of the command has length 0 before the merge (as
  the default launcher leaves it) and there is at least one override, the environment
  of the command becomes the inherited entries \<open>I\<close> followed by the overrides \<open>E\<close>, and
  a variable read from it is the one the overrides set (the last entry setting it), or
  else the one the inherited entries set. With no override the command is left as it
  was. So with the default launcher the command handed to the start has a nil
  environment when there is no override, and \<open>I\<close> followed by \<open>E\<close> otherwise.
\<close>

theorem appendEnvironment_inherited_then_overrides:
  "(lenEnv xc = 0 \<and> E \<noteq> [] \<longrightarrow>
      Env (appendEnvironment I xc E) = Some (I @ E)
    \<and> (\<forall>k. map_option (getenv k) (Env (appendEnvironment I xc E))
            = Some (case getenv k E of Some v \<Rightarrow> Some v | None \<Rightarrow> getenv k I)))
   \<and> appendEnvironment I xc [] = xc
   \<and> (errStdoutPipe p = None \<and> errStderrPipe p = None \<longrightarrow>
        map_option Env
          (launched (snd (RunExecutable (exec_Command lookPath) p c executable params)))
        = Some (if env c = [] then None else Some (os_Environ p @ env c)))"
proof -
  have "Env (appendEnvironment I xc E) = Some (I @ E)" if "lenEnv xc = 0 \<and> E \<noteq> []"
    using that by (simp add: appendEnvironment_Env)
  moreover have "appendEnvironment I xc [] = xc"
    by (simp add: appendEnvironment_def)
  ultimately show ?thesis
    using RunExecutable_default_environment [of p lookPath c executable params]
    by (simp add: getenv_append)
qed

theorem appendEnvironment_inherited_then_overrides_witness:
  "lenEnv (exec_Command lookBin ''env'' []) = 0 \<and> [''DEBUG=true''] \<noteq> []
   \<and> Env (appendEnvironment [''PATH=/bin'', ''DEBUG=false''] (exec_Command lookBin ''env'' [])
            [''DEBUG=true''])
     = Some [''PATH=/bin'', ''DEBUG=false'', ''DEBUG=true'']
   \<and> map_option (getenv ''DEBUG'')
       (Env (appendEnvironment [''PATH=/bin'', ''DEBUG=false''] (exec_Command lookBin ''env'' [])
               [''DEBUG=true'']))
     = Some (Some ''true'')
   \<and> errStdoutPipe (calm [''PATH=/bin'']) = None \<and> errStderrPipe (calm [''PATH=/bin'']) = None
   \<and> map_option Env
        (launched (snd (RunExecutable (exec_Command lookBin) (calm [''PATH=/bin''])
                          (SetEnv [''DEBUG=true''] Command0) ''env'' [])))
     = Some (Some [''PATH=/bin'', ''DEBUG=true''])"
  using appendEnvironment_inherited_then_overrides
          [where xc = "exec_Command lookBin ''env'' []" and E = "[''DEBUG=true'']"
             and I = "[''PATH=/bin'', ''DEBUG=false'']" and p = "calm [''PATH=/bin'']"
             and lookPath = lookBin and c = "SetEnv [''DEBUG=true''] Command0"
             and executable = "''env''" and params = "[]"]
  by (simp add: exec_Command_def lenEnv_def entryKey_def entryValue_def calm_def SetEnv_def
        Command0_def)



subsection \<open>Traces of the start\<close>

lemma startCmd_stdout_pipe_fails:
  "errStdoutPipe p = Some e \<Longrightarrow>
     startCmd p xc out er =
       (Inl (Wrap (Wrap e ''getting Stdout pipe failed'') ''getting command pipes failed''),
        [StdoutPipe])"
  by (simp add: startCmd_def cmdPipes_def)

lemma startCmd_stderr_pipe_fails:
  "errStdoutPipe p = None \<Longrightarrow> errStderrPipe p = Some e \<Longrightarrow>
     startCmd p xc out er =
       (Inl (Wrap (Wrap e ''getting Stderr pipe failed'') ''getting command pipes failed''),
        [StdoutPipe, StderrPipe])"
  by (simp add: startCmd_def cmdPipes_def)

lemma startCmd_start_fails:
  "errStdoutPipe p = None \<Longrightarrow> errStderrPipe p = None \<Longrightarrow> errStart p = Some e \<Longrightarrow>
     startCmd p xc out er =
       (Inl (Wrap e ''starting command failed''), [StdoutPipe, StderrPipe, Start xc])"
  by (simp add: startCmd_def cmdPipes_def)

lemma startCmd_started:
  "errStdoutPipe p = None \<Longrightarrow> errStderrPipe p = None \<Longrightarrow> errStart p = None \<Longrightarrow>
     startCmd p xc out er =
       (Inr \<lparr>cmd = xc, errCopyStdout = None, errCopyStderr = None\<rparr>,
        [StdoutPipe, StderrPipe, Start xc, GoCopy out StdoutStream, GoCopy er StderrStream])"
  by (simp add: startCmd_def cmdPipes_def)

lemmas startCmd_cases =
  startCmd_stdout_pipe_fails startCmd_stderr_pipe_fails startCmd_start_fails startCmd_started

lemma startCmd_trace_order:
  assumes "snd (startCmd p xc out er) = pre @ Start xc' # post"
  shows "StdoutPipe \<in> set pre \<and> StderrPipe \<in> set pre
       \<and> errStdoutPipe p = None \<and> errStderrPipe p = None \<and> xc' = xc"
  using assms
  by (cases "errStdoutPipe p"; cases "errStderrPipe p"; cases "errStart p")
     (auto simp: startCmd_cases Cons_eq_append_conv)

lemma RunExecutableInBackground_startCmd:
  "RunExecutableInBackground EC p c executable params =
     (map_sum (\<lambda>e. Wrap e (''starting command '' @ apos @ executable @ apos @ '' failed'')) id
        (fst (startCmd p (appendEnvironment (os_Environ p)
               (if length (dir c) > 0 then (EC executable params)\<lparr>Dir := dir c\<rparr>
                else EC executable params) (env c))
               (fst (prepareOut (stdout c) (stderr c))) (snd (prepareOut (stdout c) (stderr c))))),
      Info (''running command: '' @ executable @ '' '' @ strings_Join params '' '')
      # snd (startCmd p (appendEnvironment (os_Environ p)
               (if length (dir c) > 0 then (EC executable params)\<lparr>Dir := dir c\<rparr>
                else EC executable params) (env c))
               (fst (prepareOut (stdout c) (stderr c))) (snd (prepareOut (stdout c) (stderr c)))))"
  by (simp add: RunExecutableInBackground_def Let_def split: prod.splits sum.splits)

lemma RunShell_runCmd:
  "RunShell EC p c shell script =
     (map_option (\<lambda>e. Wrap e (''running shell script failed with '' @ shell))
        (fst (runCmd p ((appendEnvironment (os_Environ p)
               (if length (dir c) > 0 then (EC shell [])\<lparr>Dir := dir c\<rparr>
                else EC shell []) (env c))\<lparr>Stdin := Some script\<rparr>)
               (fst (prepareOut (stdout c) (stderr c))) (snd (prepareOut (stdout c) (stderr c))))),
      Info (''running shell script: '' @ shell @ '' '' @ script)
      # snd (runCmd p ((appendEnvironment (os_Environ p)
               (if length (dir c) > 0 then (EC shell [])\<lparr>Dir := dir c\<rparr>
                else EC shell []) (env c))\<lparr>Stdin := Some script\<rparr>)
               (fst (prepareOut (stdout c) (stderr c))) (snd (prepareOut (stdout c) (stderr c)))))"
  by (simp add: RunShell_def Let_def split: prod.splits option.splits)

lemma runCmd_startCmd_trace:
  "snd (runCmd p xc out er) =
     snd (startCmd p xc out er) @ (case fst (startCmd p xc out er) of Inl e \<Rightarrow> [] | Inr x \<Rightarrow> [Join])"
  by (simp add: runCmd_def Wait_def split: prod.splits sum.splits option.splits)

lemma runCmd_trace_order:
  assumes "snd (runCmd p xc out er) = pre @ Start xc' # post"
  shows "StdoutPipe \<in> set pre \<and> StderrPipe \<in> set pre
       \<and> errStdoutPipe p = None \<and> errStderrPipe p = None \<and> xc' = xc"
  using assms unfolding runCmd_startCmd_trace
  by (cases "errStdoutPipe p"; cases "errStderrPipe p"; cases "errStart p")
     (auto simp: startCmd_cases Cons_eq_append_conv)

lemma strings_HasPrefix_iff: "strings_HasPrefix s pre \<longleftrightarrow> (\<exists>t. s = pre @ t)"
  by (induction s pre rule: strings_HasPrefix.induct) auto

lemma strings_Contains_iff: "strings_Contains s sub \<longleftrightarrow> (\<exists>u v. s = u @ sub @ v)"
proof (induction s)
  case Nil
  then show ?case by auto
next
  case (Cons c s)
  show ?case
  proof
    assume "strings_Contains (c # s) sub"
    then consider "strings_HasPrefix (c # s) sub" | "strings_Contains s sub" by auto
    then show "\<exists>u v. c # s = u @ sub @ v"
    proof cases
      case 1
      then obtain t where "c # s = sub @ t" by (auto simp: strings_HasPrefix_iff)
      then have "c # s = [] @ sub @ t" by simp
      then show ?thesis by blast
    next
      case 2
      then obtain u v where "s = u @ sub @ v" using Cons.IH by blast
      then have "c # s = (c # u) @ sub @ v" by simp
      then show ?thesis by blast
    qed
  next
    assume "\<exists>u v. c # s = u @ sub @ v"
    then obtain u v where uv: "c # s = u @ sub @ v" by blast
    show "strings_Contains (c # s) sub"
    proof (cases u)
      case Nil
      with uv have "strings_HasPrefix (c # s) sub" by (auto simp: strings_HasPrefix_iff)
      then show ?thesis by simp
    next
      case (Cons d u')
      with uv have "s = u' @ sub @ v" by simp
      then have "strings_Contains s sub" using Cons.IH by blast
      then show ?thesis by simp
    qed
  qed
qed

lemma strings_Contains_middle: "strings_Contains (u @ sub @ v) sub"
  by (auto simp: strings_Contains_iff)

lemma Info_decompose:
  assumes "Info l # tr = pre @ Start xc' # post"
  shows "\<exists>pre'. pre = Info l # pre' \<and> tr = pre' @ Start xc' # post"
  using assms by (cases pre) auto

lemma RunExecutableInBackground_trace:
  "\<exists>l xc1 out1 er1. snd (RunExecutableInBackground EC p c executable params)
       = Info l # snd (startCmd p xc1 out1 er1)"
  by (auto simp: RunExecutableInBackground_startCmd)

lemma RunExecutable_trace:
  "\<exists>l xc1 out1 er1. snd (RunExecutable EC p c executable params)
       = Info l # snd (runCmd p xc1 out1 er1)"
  by (auto simp: RunExecutable_runCmd)

lemma RunShell_trace:
  "\<exists>l xc1 out1 er1. snd (RunShell EC p c shell script) = Info l # snd (runCmd p xc1 out1 er1)"
  by (auto simp: RunShell_runCmd)

lemma handle_of_map_sum: "handle_of (map_sum f id r) = handle_of r"
  by (cases r) (simp_all add: handle_of_def)

lemma RunExecutableInBackground_handle:
  "\<exists>xc1 out1 er1. handle_of (fst (RunExecutableInBackground EC p c executable params))
       = handle_of (fst (startCmd p xc1 out1 er1))"
  unfolding RunExecutableInBackground_startCmd fst_conv handle_of_map_sum by blast

lemma public_trace_order:
  assumes "tr = snd (startCmd p xc out er)
         \<or> tr = snd (RunExecutableInBackground EC p c executable params)
         \<or> tr = snd (RunExecutable EC p c executable params)
         \<or> tr = snd (RunShell EC p c shell script)"
    and "tr = pre @ Start xc' # post"
  shows "StdoutPipe \<in> set pre \<and> StderrPipe \<in> set pre
       \<and> (errStdoutPipe p = None \<and> errStderrPipe p = None)"
proof -
  consider (direct) "tr = snd (startCmd p xc out er)"
    | (start) l xc1 out1 er1 where "tr = Info l # snd (startCmd p xc1 out1 er1)"
    | (run) l xc1 out1 er1 where "tr = Info l # snd (runCmd p xc1 out1 er1)"
    using assms(1) RunExecutableInBackground_trace [of EC p c executable params]
      RunExecutable_trace [of EC p c executable params] RunShell_trace [of EC p c shell script]
    by metis
  then show ?thesis
  proof cases
    case direct
    with assms(2) show ?thesis using startCmd_trace_order by metis
  next
    case start
    with assms(2) obtain pre' where "pre = Info l # pre'"
      and "snd (startCmd p xc1 out1 er1) = pre' @ Start xc' # post"
      using Info_decompose by metis
    then show ?thesis using startCmd_trace_order [of p xc1 out1 er1 pre' xc' post] by simp
  next
    case run
    with assms(2) obtain pre' where "pre = Info l # pre'"
      and "snd (runCmd p xc1 out1 er1) = pre' @ Start xc' # post"
      using Info_decompose by metis
    then show ?thesis using runCmd_trace_order [of p xc1 out1 er1 pre' xc' post] by simp
  qed
qed

lemma startCmd_pipe_failure_trace:
  assumes "errStdoutPipe p \<noteq> None \<or> errStderrPipe p \<noteq> None"
  shows "launched (snd (startCmd p xc out er)) = None
       \<and> drains (snd (startCmd p xc out er)) = []
       \<and> Join \<notin> set (snd (startCmd p xc out er))
       \<and> (\<exists>e. fst (startCmd p xc out er) = Inl e)"
  using assms
  by (cases "errStdoutPipe p"; cases "errStderrPipe p") (auto simp: startCmd_cases)

lemma runCmd_pipe_failure_trace:
  assumes "errStdoutPipe p \<noteq> None \<or> errStderrPipe p \<noteq> None"
  shows "launched (snd (runCmd p xc out er)) = None
       \<and> drains (snd (runCmd p xc out er)) = []
       \<and> Join \<notin> set (snd (runCmd p xc out er))"
  using startCmd_pipe_failure_trace [OF assms, of xc out er]
  by (auto simp: runCmd_startCmd_trace)

lemma public_pipe_failure_trace:
  assumes "errStdoutPipe p \<noteq> None \<or> errStderrPipe p \<noteq> None"
    and "tr = snd (startCmd p xc out er)
         \<or> tr = snd (RunExecutableInBackground EC p c executable params)
         \<or> tr = snd (RunExecutable EC p c executable params)
         \<or> tr = snd (RunShell EC p c shell script)"
  shows "launched tr = None \<and> drains tr = [] \<and> Join \<notin> set tr"
  using assms(2)
proof (elim disjE)
  assume "tr = snd (startCmd p xc out er)"
  then show ?thesis using startCmd_pipe_failure_trace [OF assms(1)] by simp
next
  assume "tr = snd (RunExecutableInBackground EC p c executable params)"
  then show ?thesis
    using startCmd_pipe_failure_trace [OF assms(1)]
    by (simp add: RunExecutableInBackground_startCmd)
next
  assume "tr = snd (RunExecutable EC p c executable params)"
  then show ?thesis
    using runCmd_pipe_failure_trace [OF assms(1)] by (simp add: RunExecutable_runCmd)
next
  assume "tr = snd (RunShell EC p c shell script)"
  then show ?thesis
    using runCmd_pipe_failure_trace [OF assms(1)] by (simp add: RunShell_runCmd)
qed

subsection \<open>Pipes before start\<close>

lemma startCmd_pipe_failure_result:
  assumes "errStdoutPipe p \<noteq> None \<or> errStderrPipe p \<noteq> None"
  shows "fst (startCmd p xc out er) =
           Inl (Wrap (case errStdoutPipe p of
                            Some e \<Rightarrow> Wrap e ''getting Stdout pipe failed''
                          | None \<Rightarrow> Wrap (the (errStderrPipe p)) ''getting Stderr pipe failed'')
                  ''getting command pipes failed'')"
  using assms
  by (cases "errStdoutPipe p"; cases "errStderrPipe p") (auto simp: startCmd_cases)

lemma runCmd_pipe_failure_result:
  assumes "errStdoutPipe p \<noteq> None \<or> errStderrPipe p \<noteq> None"
  shows "fst (runCmd p xc out er) =
           Some (Wrap (case errStdoutPipe p of
                            Some e \<Rightarrow> Wrap e ''getting Stdout pipe failed''
                          | None \<Rightarrow> Wrap (the (errStderrPipe p)) ''getting Stderr pipe failed'')
                   ''getting command pipes failed'')"
  using startCmd_pipe_failure_result [OF assms, of xc out er]
  by (cases "startCmd p xc out er") (simp add: runCmd_def)

text \<open>
  C4: in the calls made by \<^verbatim>\<open>startCmd\<close> and by each of the three public run
  operations, every call of \<^verbatim>\<open>cmd.Start()\<close> comes after the calls that attach the
  standard-output and the standard-error pipe, and is reached only if both succeeded.
  If obtaining either pipe fails, \<^verbatim>\<open>Start\<close> is not called, no copy goroutine is
  spawned and nothing is joined; \<^verbatim>\<open>startCmd\<close> returns no handle but the pipe error
  wrapped as "getting command pipes failed", and every public operation fails with that
  error in its own wrapper: the background run (which returns no handle) as "starting
  command 'NAME' failed", the blocking run as "running command 'NAME' failed", and the
  shell run as "running shell script failed with SHELL".
\<close>

theorem pipes_attached_before_start:
  assumes "tr = snd (startCmd p xc out er)
         \<or> tr = snd (RunExecutableInBackground EC p c executable params)
         \<or> tr = snd (RunExecutable EC p c executable params)
         \<or> tr = snd (RunShell EC p c shell script)"
  shows "(\<forall>pre post xc'. tr = pre @ Start xc' # post \<longrightarrow>
            StdoutPipe \<in> set pre \<and> StderrPipe \<in> set pre
          \<and> (errStdoutPipe p = None \<and> errStderrPipe p = None))
       \<and> (errStdoutPipe p \<noteq> None \<or> errStderrPipe p \<noteq> None \<longrightarrow>
            launched tr = None \<and> drains tr = [] \<and> Join \<notin> set tr
          \<and> handle_of (fst (startCmd p xc out er)) = None
          \<and> error_of (fst (startCmd p xc out er)) =
              Some (Wrap (case errStdoutPipe p of
                            Some e \<Rightarrow> Wrap e ''getting Stdout pipe failed''
                          | None \<Rightarrow> Wrap (the (errStderrPipe p)) ''getting Stderr pipe failed'')
                      ''getting command pipes failed'')
          \<and> handle_of (fst (RunExecutableInBackground EC p c executable params)) = None
          \<and> fst (RunExecutableInBackground EC p c executable params) =
              Inl (Wrap (Wrap (case errStdoutPipe p of
                            Some e \<Rightarrow> Wrap e ''getting Stdout pipe failed''
                          | None \<Rightarrow> Wrap (the (errStderrPipe p)) ''getting Stderr pipe failed'')
                           ''getting command pipes failed'')
                     (''starting command '' @ apos @ executable @ apos @ '' failed''))
          \<and> fst (RunExecutable EC p c executable params) =
              Some (Wrap (Wrap (case errStdoutPipe p of
                            Some e \<Rightarrow> Wrap e ''getting Stdout pipe failed''
                          | None \<Rightarrow> Wrap (the (errStderrPipe p)) ''getting Stderr pipe failed'')
                            ''getting command pipes failed'')
                      (''running command '' @ apos @ executable @ apos @ '' failed''))
          \<and> fst (RunShell EC p c shell script) =
              Some (Wrap (Wrap (case errStdoutPipe p of
                            Some e \<Rightarrow> Wrap e ''getting Stdout pipe failed''
                          | None \<Rightarrow> Wrap (the (errStderrPipe p)) ''getting Stderr pipe failed'')
                            ''getting command pipes failed'')
                      (''running shell script failed with '' @ shell)))"
proof -
  have "\<forall>pre post xc'. tr = pre @ Start xc' # post \<longrightarrow>
            StdoutPipe \<in> set pre \<and> StderrPipe \<in> set pre
          \<and> (errStdoutPipe p = None \<and> errStderrPipe p = None)"
    using public_trace_order [OF assms] by blast
  moreover have "launched tr = None \<and> drains tr = [] \<and> Join \<notin> set tr"
    if "errStdoutPipe p \<noteq> None \<or> errStderrPipe p \<noteq> None"
    using public_pipe_failure_trace [OF that assms] .
  moreover have "handle_of (fst (startCmd p xc out er)) = None
      \<and> error_of (fst (startCmd p xc out er)) =
          Some (Wrap (case errStdoutPipe p of
                            Some e \<Rightarrow> Wrap e ''getting Stdout pipe failed''
                          | None \<Rightarrow> Wrap (the (errStderrPipe p)) ''getting Stderr pipe failed'')
                  ''getting command pipes failed'')"
    if "errStdoutPipe p \<noteq> None \<or> errStderrPipe p \<noteq> None"
    by (simp add: startCmd_pipe_failure_result [OF that] handle_of_def error_of_def)
  moreover have "fst (RunExecutableInBackground EC p c executable params) =
              Inl (Wrap (Wrap (case errStdoutPipe p of
                            Some e \<Rightarrow> Wrap e ''getting Stdout pipe failed''
                          | None \<Rightarrow> Wrap (the (errStderrPipe p)) ''getting Stderr pipe failed'')
                           ''getting command pipes failed'')
                     (''starting command '' @ apos @ executable @ apos @ '' failed''))"
    if "errStdoutPipe p \<noteq> None \<or> errStderrPipe p \<noteq> None"
    by (simp only: RunExecutableInBackground_startCmd fst_conv
          startCmd_pipe_failure_result [OF that] map_sum.simps)
  moreover have "handle_of (fst (RunExecutableInBackground EC p c executable params)) = None"
    if "errStdoutPipe p \<noteq> None \<or> errStderrPipe p \<noteq> None"
    by (simp only: RunExecutableInBackground_startCmd fst_conv
          startCmd_pipe_failure_result [OF that] map_sum.simps) (simp add: handle_of_def)
  moreover have "fst (RunExecutable EC p c executable params) =
              Some (Wrap (Wrap (case errStdoutPipe p of
                            Some e \<Rightarrow> Wrap e ''getting Stdout pipe failed''
                          | None \<Rightarrow> Wrap (the (errStderrPipe p)) ''getting Stderr pipe failed'')
                            ''getting command pipes failed'')
                      (''running command '' @ apos @ executable @ apos @ '' failed''))"
    if "errStdoutPipe p \<noteq> None \<or> errStderrPipe p \<noteq> None"
    by (simp only: RunExecutable_runCmd fst_conv runCmd_pipe_failure_result [OF that]
          option.map)
  moreover have "fst (RunShell EC p c shell script) =
              Some (Wrap (Wrap (case errStdoutPipe p of
                            Some e \<Rightarrow> Wrap e ''getting Stdout pipe failed''
                          | None \<Rightarrow> Wrap (the (errStderrPipe p)) ''getting Stderr pipe failed'')
                            ''getting command pipes failed'')
                      (''running shell script failed with '' @ shell))"
    if "errStdoutPipe p \<noteq> None \<or> errStderrPipe p \<noteq> None"
    by (simp only: RunShell_runCmd fst_conv runCmd_pipe_failure_result [OF that] option.map)
  ultimately show ?thesis by blast
qed

theorem pipes_attached_before_start_witness:
  "snd (startCmd (calm []) (exec_Command lookBin ''echo'' []) os_Stdout os_Stderr)
     = [StdoutPipe, StderrPipe] @ Start (exec_Command lookBin ''echo'' [])
         # [GoCopy os_Stdout StdoutStream, GoCopy os_Stderr StderrStream]
   \<and> StderrPipe \<in> set [StdoutPipe, StderrPipe]
   \<and> errStderrPipe ((calm [])\<lparr>errStderrPipe := Some (Raw ''too many open files'')\<rparr>) \<noteq> None
   \<and> launched (snd (RunExecutable (exec_Command lookBin)
          ((calm [])\<lparr>errStderrPipe := Some (Raw ''too many open files'')\<rparr>) Command0 ''echo'' []))
       = None
   \<and> error_of (fst (startCmd ((calm [])\<lparr>errStderrPipe := Some (Raw ''too many open files'')\<rparr>)
          (exec_Command lookBin ''echo'' []) os_Stdout os_Stderr))
       = Some (Wrap (Wrap (Raw ''too many open files'') ''getting Stderr pipe failed'')
                 ''getting command pipes failed'')
   \<and> fst (RunExecutable (exec_Command lookBin)
          ((calm [])\<lparr>errStderrPipe := Some (Raw ''too many open files'')\<rparr>) Command0 ''echo'' [])
       = Some (Wrap (Wrap (Wrap (Raw ''too many open files'') ''getting Stderr pipe failed'')
                      ''getting command pipes failed'')
                 (''running command '' @ apos @ ''echo'' @ apos @ '' failed''))"
  using pipes_attached_before_start
          [where tr = "snd (startCmd (calm []) (exec_Command lookBin ''echo'' []) os_Stdout os_Stderr)"
             and p = "calm []" and xc = "exec_Command lookBin ''echo'' []" and out = os_Stdout
             and er = os_Stderr]
        pipes_attached_before_start
          [where tr = "snd (RunExecutable (exec_Command lookBin)
                  ((calm [])\<lparr>errStderrPipe := Some (Raw ''too many open files'')\<rparr>) Command0 ''echo'' [])"
             and p = "(calm [])\<lparr>errStderrPipe := Some (Raw ''too many open files'')\<rparr>"
             and xc = "exec_Command lookBin ''echo'' []" and out = os_Stdout and er = os_Stderr
             and EC = "exec_Command lookBin" and c = Command0 and executable = "''echo''" and params = "[]"]
  by (simp add: calm_def startCmd_def cmdPipes_def)

subsection \<open>A start that fails\<close>



subsection \<open>Results of a run\<close>

lemma runCmd_started:
  assumes "errStdoutPipe p = None" and "errStderrPipe p = None" and "errStart p = None"
  shows "runCmd p xc out er =
     ((if copyStdout p \<noteq> None \<or> copyStderr p \<noteq> None then
         Some (Errorf (''failed to capture stdout/stderr: '' @ apos @ fmt_v (copyStdout p)
                        @ apos @ ''/'' @ apos @ fmt_v (copyStderr p) @ apos))
       else map_option (\<lambda>e. Wrap e ''cmd.Run() failed'') (errWait p)),
      [StdoutPipe, StderrPipe, Start xc, GoCopy out StdoutStream, GoCopy er StderrStream, Join])"
  using assms
  by (cases "errWait p") (auto simp: runCmd_def Wait_def startCmd_started)

lemma launched_RunShell:
  "errStdoutPipe p = None \<Longrightarrow> errStderrPipe p = None \<Longrightarrow>
     launched (snd (RunShell EC p c shell script)) =
       Some ((appendEnvironment (os_Environ p)
               (if length (dir c) > 0 then (EC shell [])\<lparr>Dir := dir c\<rparr> else EC shell [])
               (env c))\<lparr>Stdin := Some script\<rparr>)"
  by (simp only: RunShell_runCmd snd_conv launched.simps launched_runCmd)

subsection \<open>The shell script on standard input\<close>

text \<open>
  C7: a run of \<^verbatim>\<open>RunShell\<close> that obtains its pipes starts the command the launcher
  returns for the shell path and an empty argument list, with the working directory and
  the environment applied and with a standard input that holds exactly the bytes of the
  script. With the default launcher the argument vector is the shell alone. It is the
  command \<^verbatim>\<open>RunExecutable\<close> starts for the shell with no arguments, with the
  standard input set.
\<close>

theorem RunShell_script_on_stdin:
  assumes "errStdoutPipe p = None" and "errStderrPipe p = None"
  shows "launched (snd (RunShell EC p c shell script)) =
           Some ((appendEnvironment (os_Environ p)
                   (if length (dir c) > 0 then (EC shell [])\<lparr>Dir := dir c\<rparr> else EC shell [])
                   (env c))\<lparr>Stdin := Some script\<rparr>)
       \<and> map_option Stdin (launched (snd (RunShell EC p c shell script))) = Some (Some script)
       \<and> map_option Args (launched (snd (RunShell (exec_Command lookPath) p c shell script)))
           = Some [shell]
       \<and> launched (snd (RunShell EC p c shell script)) =
           map_option (\<lambda>xc. xc\<lparr>Stdin := Some script\<rparr>)
             (launched (snd (RunExecutable EC p c shell [])))"
  using assms
  by (simp add: launched_RunShell launched_RunExecutable appendEnvironment_fields
        exec_Command_def)

theorem RunShell_script_on_stdin_witness:
  "errStdoutPipe (calm []) = None \<and> errStderrPipe (calm []) = None
   \<and> launched (snd (RunShell (exec_Command lookBin) (calm []) Command0 ''/bin/bash'' ''myScript''))
     = Some \<lparr>Path = ''/bin/bash'', Args = [''/bin/bash''], Dir = [], Env = None,
             Stdin = Some ''myScript''\<rparr>"
  using RunShell_script_on_stdin
          [where p = "calm []" and EC = "exec_Command lookBin" and c = Command0
             and shell = "''/bin/bash''" and script = "''myScript''"]
  by (simp add: calm_def Command0_def exec_Command_def appendEnvironment_def)

lemma drains_runCmd:
  assumes "errStdoutPipe p = None" and "errStderrPipe p = None" and "errStart p = None"
  shows "drains (snd (runCmd p xc out er)) = [(StdoutStream, out), (StderrStream, er)]"
  using assms by (simp add: runCmd_started)

lemma drains_startCmd:
  assumes "errStdoutPipe p = None" and "errStderrPipe p = None" and "errStart p = None"
  shows "drains (snd (startCmd p xc out er)) = [(StdoutStream, out), (StderrStream, er)]"
  using assms by (simp add: startCmd_started)

subsection \<open>Output sinks\<close>

text \<open>
  C9: in a run that starts (any of the three operations), standard output is copied to
  the command's \<open>stdout\<close> writer and standard error to its \<open>stderr\<close> writer, where a nil
  writer stands for \<^verbatim>\<open>os.Stdout\<close> and \<^verbatim>\<open>os.Stderr\<close>. Setting a writer to nil stores nil
  (the default is not resolved when the command is configured), and writers set before
  the launch are the ones the launch uses.
\<close>

theorem sinks_resolved_at_launch:
  assumes "errStdoutPipe p = None" and "errStderrPipe p = None" and "errStart p = None"
    and "tr = snd (RunExecutable EC p c executable params)
       \<or> tr = snd (RunExecutableInBackground EC p c executable params)
       \<or> tr = snd (RunShell EC p c executable script)"
  shows "drains tr =
           [(StdoutStream, case stdout c of None \<Rightarrow> os_Stdout | Some w \<Rightarrow> w),
            (StderrStream, case stderr c of None \<Rightarrow> os_Stderr | Some w \<Rightarrow> w)]
       \<and> stdout (Stdout None c) = None \<and> stderr (Stderr None c) = None
       \<and> drains (snd (RunExecutable EC p (Stdout (Some w1) (Stderr (Some w2) c))
                         executable params))
           = [(StdoutStream, w1), (StderrStream, w2)]"
proof -
  have "drains tr =
           [(StdoutStream, case stdout c of None \<Rightarrow> os_Stdout | Some w \<Rightarrow> w),
            (StderrStream, case stderr c of None \<Rightarrow> os_Stderr | Some w \<Rightarrow> w)]"
    using assms(4)
  proof (elim disjE)
    assume "tr = snd (RunExecutable EC p c executable params)"
    then show ?thesis
      by (simp only: RunExecutable_runCmd snd_conv drains.simps
            drains_runCmd [OF assms(1-3)]) (simp add: prepareOut_def)
  next
    assume "tr = snd (RunExecutableInBackground EC p c executable params)"
    then show ?thesis
      by (simp only: RunExecutableInBackground_startCmd snd_conv drains.simps
            drains_startCmd [OF assms(1-3)]) (simp add: prepareOut_def)
  next
    assume "tr = snd (RunShell EC p c executable script)"
    then show ?thesis
      by (simp only: RunShell_runCmd snd_conv drains.simps
            drains_runCmd [OF assms(1-3)]) (simp add: prepareOut_def)
  qed
  moreover have "drains (snd (RunExecutable EC p (Stdout (Some w1) (Stderr (Some w2) c))
                         executable params))
           = [(StdoutStream, w1), (StderrStream, w2)]"
    by (simp only: RunExecutable_runCmd snd_conv drains.simps
          drains_runCmd [OF assms(1-3)]) (simp add: prepareOut_def Stdout_def Stderr_def)
  ultimately show ?thesis by (simp add: Stdout_def Stderr_def)
qed

theorem sinks_resolved_at_launch_witness:
  "errStart (calm []) = None
   \<and> drains (snd (RunExecutable (exec_Command lookBin) (calm []) Command0 ''echo'' [''foo bar'', ''baz'']))
     = [(StdoutStream, os_Stdout), (StderrStream, os_Stderr)]
   \<and> drains (snd (RunExecutable (exec_Command lookBin) (calm [])
                     (Stdout (Some (Sink 1)) (Stderr (Some (Sink 2)) Command0)) ''echo''
                     [''foo bar'', ''baz'']))
     = [(StdoutStream, Sink 1), (StderrStream, Sink 2)]"
  using sinks_resolved_at_launch
          [where p = "calm []" and EC = "exec_Command lookBin" and c = Command0
             and executable = "''echo''" and params = "[''foo bar'', ''baz'']"
             and tr = "snd (RunExecutable (exec_Command lookBin) (calm []) Command0 ''echo''
                              [''foo bar'', ''baz''])"
             and ?w1.0 = "Sink 1" and ?w2.0 = "Sink 2"]
  by (simp add: calm_def Command0_def)

subsection \<open>Failures after the start\<close>

lemma RunExecutable_started:
  assumes "errStdoutPipe p = None" and "errStderrPipe p = None" and "errStart p = None"
  shows "fst (RunExecutable EC p c executable params) =
     map_option (\<lambda>e. Wrap e (''running command '' @ apos @ executable @ apos @ '' failed''))
       (if copyStdout p \<noteq> None \<or> copyStderr p \<noteq> None then
          Some (Errorf (''failed to capture stdout/stderr: '' @ apos @ fmt_v (copyStdout p)
                         @ apos @ ''/'' @ apos @ fmt_v (copyStderr p) @ apos))
        else map_option (\<lambda>e. Wrap e ''cmd.Run() failed'') (errWait p))"
  by (simp only: RunExecutable_runCmd fst_conv runCmd_started [OF assms])

text \<open>
  C2, amended: when the process started and a copy-error slot is set after the join,
  \<^verbatim>\<open>runCmd\<close> fails with a message-only error whose text holds the texts of both slots
  (an unset slot as \<^verbatim>\<open><nil>\<close>); \<^verbatim>\<open>RunExecutable\<close> wraps it with the executable's
  name. What the join returned has no influence on the result, and the cause of the
  returned error is the message-only error.
\<close>

theorem copy_failure_reported_as_text:
  assumes "errStdoutPipe p = None" and "errStderrPipe p = None" and "errStart p = None"
    and "copyStdout p \<noteq> None \<or> copyStderr p \<noteq> None"
  shows "fst (runCmd p xc out er)
           = Some (Errorf (''failed to capture stdout/stderr: '' @ apos @ fmt_v (copyStdout p)
                            @ apos @ ''/'' @ apos @ fmt_v (copyStderr p) @ apos))
       \<and> fst (RunExecutable EC p c executable params)
           = Some (Wrap (Errorf (''failed to capture stdout/stderr: '' @ apos
                                  @ fmt_v (copyStdout p) @ apos @ ''/'' @ apos
                                  @ fmt_v (copyStderr p) @ apos))
                     (''running command '' @ apos @ executable @ apos @ '' failed''))
       \<and> strings_Contains (''failed to capture stdout/stderr: '' @ apos @ fmt_v (copyStdout p)
                            @ apos @ ''/'' @ apos @ fmt_v (copyStderr p) @ apos)
           (fmt_v (copyStdout p))
       \<and> strings_Contains (''failed to capture stdout/stderr: '' @ apos @ fmt_v (copyStdout p)
                            @ apos @ ''/'' @ apos @ fmt_v (copyStderr p) @ apos)
           (fmt_v (copyStderr p))
       \<and> fst (RunExecutable EC (p\<lparr>errWait := w\<rparr>) c executable params)
           = fst (RunExecutable EC p c executable params)
       \<and> Cause (the (fst (RunExecutable EC p c executable params)))
           = Errorf (''failed to capture stdout/stderr: '' @ apos @ fmt_v (copyStdout p)
                      @ apos @ ''/'' @ apos @ fmt_v (copyStderr p) @ apos)"
proof -
  have run: "fst (runCmd p xc out er)
           = Some (Errorf (''failed to capture stdout/stderr: '' @ apos @ fmt_v (copyStdout p)
                            @ apos @ ''/'' @ apos @ fmt_v (copyStderr p) @ apos))"
    using assms(4) by (simp add: runCmd_started [OF assms(1-3)])
  have exe: "fst (RunExecutable EC p c executable params)
           = Some (Wrap (Errorf (''failed to capture stdout/stderr: '' @ apos
                                  @ fmt_v (copyStdout p) @ apos @ ''/'' @ apos
                                  @ fmt_v (copyStderr p) @ apos))
                     (''running command '' @ apos @ executable @ apos @ '' failed''))"
    using assms(4) by (simp add: RunExecutable_started [OF assms(1-3)])
  have wait: "fst (RunExecutable EC (p\<lparr>errWait := w\<rparr>) c executable params)
           = fst (RunExecutable EC p c executable params)"
    using assms by (simp add: RunExecutable_started)
  have c1: "strings_Contains (''failed to capture stdout/stderr: '' @ apos @ fmt_v (copyStdout p)
                            @ apos @ ''/'' @ apos @ fmt_v (copyStderr p) @ apos)
           (fmt_v (copyStdout p))"
    using strings_Contains_middle
            [of "''failed to capture stdout/stderr: '' @ apos" "fmt_v (copyStdout p)"
                "apos @ ''/'' @ apos @ fmt_v (copyStderr p) @ apos"]
    by simp
  have c2: "strings_Contains (''failed to capture stdout/stderr: '' @ apos @ fmt_v (copyStdout p)
                            @ apos @ ''/'' @ apos @ fmt_v (copyStderr p) @ apos)
           (fmt_v (copyStderr p))"
    using strings_Contains_middle
            [of "''failed to capture stdout/stderr: '' @ apos @ fmt_v (copyStdout p)
                   @ apos @ ''/'' @ apos" "fmt_v (copyStderr p)" apos]
    by simp
  show ?thesis
    using c1 c2 by (simp only: run exe wait) simp
qed

theorem copy_failure_reported_as_text_witness:
  "copyStderr ((calm [])\<lparr>copyStderr := Some (Raw ''short write'')\<rparr>) \<noteq> None
   \<and> fst (RunExecutable (exec_Command lookBin) ((calm [])\<lparr>copyStderr := Some (Raw ''short write'')\<rparr>)
            Command0 ''build'' [])
     = Some (Wrap (Errorf (''failed to capture stdout/stderr: '' @ apos @ ''<nil>'' @ apos
                            @ ''/'' @ apos @ ''short write'' @ apos))
               (''running command '' @ apos @ ''build'' @ apos @ '' failed''))"
  using copy_failure_reported_as_text
          [where p = "(calm [])\<lparr>copyStderr := Some (Raw ''short write'')\<rparr>"
             and EC = "exec_Command lookBin" and c = Command0 and executable = "''build''"
             and params = "[]"]
  by (simp add: calm_def)

text \<open>
  C2, as stated: a copy failure is reported together with the exit status, and the
  underlying causes can be inspected from the returned error. It fails on a run whose
  standard-output copy fails with "short write" and whose process exits with status 1:
  neither error is on the chain of the returned error, and the exit status is not in its
  text either.
\<close>

theorem copy_failure_drops_exit_status_and_causes:
  "fst (RunExecutable (exec_Command lookBin)
          ((calm [])\<lparr>copyStdout := Some (Raw ''short write''),
                     errWait := Some (Raw ''exit status 1'')\<rparr>) Command0 ''build'' [])
     = Some (Wrap (Errorf (''failed to capture stdout/stderr: '' @ apos @ ''short write'' @ apos
                            @ ''/'' @ apos @ ''<nil>'' @ apos))
               (''running command '' @ apos @ ''build'' @ apos @ '' failed''))
   \<and> Raw ''short write''
       \<notin> set (chain (Wrap (Errorf (''failed to capture stdout/stderr: '' @ apos
                                     @ ''short write'' @ apos @ ''/'' @ apos @ ''<nil>'' @ apos))
                        (''running command '' @ apos @ ''build'' @ apos @ '' failed'')))
   \<and> Raw ''exit status 1''
       \<notin> set (chain (Wrap (Errorf (''failed to capture stdout/stderr: '' @ apos
                                     @ ''short write'' @ apos @ ''/'' @ apos @ ''<nil>'' @ apos))
                        (''running command '' @ apos @ ''build'' @ apos @ '' failed'')))
   \<and> \<not> strings_Contains
         (Error (Wrap (Errorf (''failed to capture stdout/stderr: '' @ apos
                                @ ''short write'' @ apos @ ''/'' @ apos @ ''<nil>'' @ apos))
                   (''running command '' @ apos @ ''build'' @ apos @ '' failed'')))
         ''exit status''"
  by (simp add: RunExecutable_started calm_def apos_def)

text \<open>
  C3, amended: when the process started, no copy-error slot is set and the join returns
  the exit error \<open>e\<close>, \<^verbatim>\<open>RunExecutable\<close> returns \<open>e\<close> wrapped as "cmd.Run() failed" and
  then as "running command 'NAME' failed". The cause is that of \<open>e\<close>, \<open>e\<close> is on the
  chain, the text contains the executable's name, and the error is the same for every
  argument list; the arguments are in the log line.
\<close>

theorem exit_failure_names_executable_only:
  assumes "errStdoutPipe p = None" and "errStderrPipe p = None" and "errStart p = None"
    and "copyStdout p = None" and "copyStderr p = None" and "errWait p = Some e"
  shows "fst (RunExecutable EC p c executable params)
           = Some (Wrap (Wrap e ''cmd.Run() failed'')
                     (''running command '' @ apos @ executable @ apos @ '' failed''))
       \<and> Cause (the (fst (RunExecutable EC p c executable params))) = Cause e
       \<and> e \<in> set (chain (the (fst (RunExecutable EC p c executable params))))
       \<and> strings_Contains (Error (the (fst (RunExecutable EC p c executable params))))
           executable
       \<and> fst (RunExecutable EC p c executable params')
           = fst (RunExecutable EC p c executable params)
       \<and> hd (snd (RunExecutable EC p c executable params))
           = Info (''running command: '' @ executable @ '' '' @ strings_Join params '' '')"
proof -
  have exe: "\<And>ps. fst (RunExecutable EC p c executable ps)
           = Some (Wrap (Wrap e ''cmd.Run() failed'')
                     (''running command '' @ apos @ executable @ apos @ '' failed''))"
    using assms(4-6) by (simp add: RunExecutable_started [OF assms(1-3)])
  have "Error (Wrap (Wrap e ''cmd.Run() failed'')
                     (''running command '' @ apos @ executable @ apos @ '' failed''))
        = (''running command '' @ apos) @ executable
            @ (apos @ '' failed'' @ '': '' @ ''cmd.Run() failed'' @ '': '' @ Error e)"
    by simp
  then have name: "strings_Contains
      (Error (Wrap (Wrap e ''cmd.Run() failed'')
                (''running command '' @ apos @ executable @ apos @ '' failed''))) executable"
    by (simp only: strings_Contains_middle)
  have chain: "e \<in> set (chain (Wrap (Wrap e ''cmd.Run() failed'')
                     (''running command '' @ apos @ executable @ apos @ '' failed'')))"
    by (cases e) simp_all
  have log: "hd (snd (RunExecutable EC p c executable params))
           = Info (''running command: '' @ executable @ '' '' @ strings_Join params '' '')"
    by (simp only: RunExecutable_runCmd snd_conv list.sel)
  show ?thesis
    using name chain log by (simp only: exe) simp
qed

theorem exit_failure_names_executable_only_witness:
  "errWait ((calm [])\<lparr>errWait := Some (Raw ''exit status 1'')\<rparr>) = Some (Raw ''exit status 1'')
   \<and> fst (RunExecutable (exec_Command lookBin) ((calm [])\<lparr>errWait := Some (Raw ''exit status 1'')\<rparr>)
            Command0 ''false'' [''--flag''])
     = Some (Wrap (Wrap (Raw ''exit status 1'') ''cmd.Run() failed'')
               (''running command '' @ apos @ ''false'' @ apos @ '' failed''))"
  using exit_failure_names_executable_only
          [where p = "(calm [])\<lparr>errWait := Some (Raw ''exit status 1'')\<rparr>"
             and e = "Raw ''exit status 1''" and EC = "exec_Command lookBin" and c = Command0
             and executable = "''false''" and params = "[''--flag'']"]
  by (simp add: calm_def)

text \<open>
  C3, as stated: the failure of a run that exits with a nonzero status is wrapped with
  the executable's name and the arguments, and its cause is the exit error. It fails for
  \<^verbatim>\<open>false --flag\<close>: the text of the returned error does not contain the argument; and
  when a copy error occurred as well, the cause is not the exit error.
\<close>

theorem exit_failure_without_arguments:
  "fst (RunExecutable (exec_Command lookBin) ((calm [])\<lparr>errWait := Some (Raw ''exit status 1'')\<rparr>)
          Command0 ''false'' [''--flag''])
     = Some (Wrap (Wrap (Raw ''exit status 1'') ''cmd.Run() failed'')
               (''running command '' @ apos @ ''false'' @ apos @ '' failed''))
   \<and> \<not> strings_Contains
         (Error (Wrap (Wrap (Raw ''exit status 1'') ''cmd.Run() failed'')
                   (''running command '' @ apos @ ''false'' @ apos @ '' failed'')))
         ''--flag''
   \<and> Cause (the (fst (RunExecutable (exec_Command lookBin)
          ((calm [])\<lparr>copyStdout := Some (Raw ''short write''),
                     errWait := Some (Raw ''exit status 1'')\<rparr>) Command0 ''false'' [''--flag''])))
     \<noteq> Raw ''exit status 1''"
  by (simp add: RunExecutable_started calm_def apos_def)

subsection \<open>Blocking run and start followed by join\<close>








subsection \<open>Classifier\<close>

lemma firstMatch_None_iff:
  "firstMatch mapping line = None
     \<longleftrightarrow> (\<forall>(l, ps)\<in>set mapping. \<forall>pat\<in>set ps. \<not> strings_Contains line pat)"
  by (induction mapping line rule: firstMatch.induct) (auto simp: list_ex_iff)

lemma feed_no_match:
  "(\<forall>line\<in>set lines. firstMatch mapping line = None) \<Longrightarrow>
     feed byLabel mapping lines signal = signal"
  by (induction lines arbitrary: signal) (simp_all add: parseConsoleErrors_def)

lemma feed_append:
  "feed byLabel mapping (xs @ ys) signal = feed byLabel mapping ys (feed byLabel mapping xs signal)"
  by (induction xs arbitrary: signal) simp_all

lemma firstMatch_append:
  "firstMatch pre line = None \<Longrightarrow> firstMatch (pre @ rest) line = firstMatch rest line"
  by (induction pre line rule: firstMatch.induct) (simp_all split: if_splits)

lemma firstMatch_Some_split:
  "firstMatch mapping line = Some label \<Longrightarrow>
     \<exists>pre pats post. mapping = pre @ (label, pats) # post
        \<and> list_ex (strings_Contains line) pats \<and> firstMatch pre line = None"
proof (induction mapping line rule: firstMatch.induct)
  case (1 line)
  then show ?case by simp
next
  case (2 l0 ps0 rest line)
  show ?case
  proof (cases "list_ex (strings_Contains line) ps0")
    case True
    with "2.prems" have "label = l0" by simp
    with True have "(l0, ps0) # rest = [] @ (label, ps0) # rest
        \<and> list_ex (strings_Contains line) ps0 \<and> firstMatch [] line = None"
      by simp
    then show ?thesis by (intro exI)
  next
    case False
    with "2.prems" have "firstMatch rest line = Some label" by simp
    from "2.IH" [OF False this] obtain pre pats post where
      r: "rest = pre @ (label, pats) # post" and m: "list_ex (strings_Contains line) pats"
      and n: "firstMatch pre line = None"
      by (elim exE conjE)
    from False n have "firstMatch ((l0, ps0) # pre) line = None" by simp
    with r m have "(l0, ps0) # rest = ((l0, ps0) # pre) @ (label, pats) # post
        \<and> list_ex (strings_Contains line) pats \<and> firstMatch ((l0, ps0) # pre) line = None"
      by simp
    then show ?thesis by (intro exI)
  qed
qed

lemma firstMatch_Some_iff:
  "firstMatch mapping line = Some label
     \<longleftrightarrow> (\<exists>pre pats post. mapping = pre @ (label, pats) # post
            \<and> (\<exists>pat\<in>set pats. strings_Contains line pat)
            \<and> (\<forall>(l, ps)\<in>set pre. \<forall>pat\<in>set ps. \<not> strings_Contains line pat))"
proof
  assume "firstMatch mapping line = Some label"
  then obtain pre pats post where "mapping = pre @ (label, pats) # post"
    and "list_ex (strings_Contains line) pats" and "firstMatch pre line = None"
    using firstMatch_Some_split by (elim exE conjE | meson)+
  then have "mapping = pre @ (label, pats) # post
            \<and> (\<exists>pat\<in>set pats. strings_Contains line pat)
            \<and> (\<forall>(l, ps)\<in>set pre. \<forall>pat\<in>set ps. \<not> strings_Contains line pat)"
    by (simp add: list_ex_iff firstMatch_None_iff)
  then show "\<exists>pre pats post. mapping = pre @ (label, pats) # post
            \<and> (\<exists>pat\<in>set pats. strings_Contains line pat)
            \<and> (\<forall>(l, ps)\<in>set pre. \<forall>pat\<in>set ps. \<not> strings_Contains line pat)"
    by (intro exI)
next
  assume "\<exists>pre pats post. mapping = pre @ (label, pats) # post
            \<and> (\<exists>pat\<in>set pats. strings_Contains line pat)
            \<and> (\<forall>(l, ps)\<in>set pre. \<forall>pat\<in>set ps. \<not> strings_Contains line pat)"
  then obtain pre pats post where d: "mapping = pre @ (label, pats) # post"
    and m: "\<exists>pat\<in>set pats. strings_Contains line pat"
    and n: "\<forall>(l, ps)\<in>set pre. \<forall>pat\<in>set ps. \<not> strings_Contains line pat"
    by (elim exE conjE)
  from n have "firstMatch pre line = None" by (simp only: firstMatch_None_iff)
  then have "firstMatch mapping line = firstMatch ((label, pats) # post) line"
    unfolding d by (rule firstMatch_append)
  also from m have "\<dots> = Some label" by (simp add: list_ex_iff)
  finally show "firstMatch mapping line = Some label" .
qed

text \<open>
  C8: a pattern matches a line when its bytes occur in the line as they are; the
  classifier picks the first category, in iteration order, with a matching pattern, and
  sets the signal to it; a line that matches nothing leaves the signal alone, also over
  a sequence of lines, so a category once set stays through later lines without a match;
  and with an empty mapping no sequence of lines changes the signal.
\<close>

theorem classifier_first_match_sticky:
  "(strings_Contains line pat \<longleftrightarrow> (\<exists>u v. line = u @ pat @ v))
   \<and> (firstMatch mapping line = Some label
        \<longleftrightarrow> (\<exists>pre pats post. mapping = pre @ (label, pats) # post
               \<and> (\<exists>pat\<in>set pats. strings_Contains line pat)
               \<and> (\<forall>(l, ps)\<in>set pre. \<forall>pat\<in>set ps. \<not> strings_Contains line pat)))
   \<and> (firstMatch mapping line = None
        \<longleftrightarrow> (\<forall>(l, ps)\<in>set mapping. \<forall>pat\<in>set ps. \<not> strings_Contains line pat))
   \<and> (firstMatch mapping line = Some label \<longrightarrow>
        parseConsoleErrors byLabel mapping line signal = byLabel label)
   \<and> (firstMatch mapping line = None \<longrightarrow>
        parseConsoleErrors byLabel mapping line signal = signal)
   \<and> ((\<forall>l\<in>set later. firstMatch mapping l = None) \<longrightarrow>
        feed byLabel mapping later signal = signal)
   \<and> (firstMatch mapping line = Some label \<and> (\<forall>l\<in>set later. firstMatch mapping l = None) \<longrightarrow>
        feed byLabel mapping (earlier @ line # later) signal = byLabel label)
   \<and> feed byLabel [] lines signal = signal"
proof -
  have c1: "strings_Contains line pat \<longleftrightarrow> (\<exists>u v. line = u @ pat @ v)"
    by (rule strings_Contains_iff)
  have c2: "firstMatch mapping line = Some label
        \<longleftrightarrow> (\<exists>pre pats post. mapping = pre @ (label, pats) # post
               \<and> (\<exists>pat\<in>set pats. strings_Contains line pat)
               \<and> (\<forall>(l, ps)\<in>set pre. \<forall>pat\<in>set ps. \<not> strings_Contains line pat))"
    by (rule firstMatch_Some_iff)
  have c3: "firstMatch mapping line = None
        \<longleftrightarrow> (\<forall>(l, ps)\<in>set mapping. \<forall>pat\<in>set ps. \<not> strings_Contains line pat)"
    by (rule firstMatch_None_iff)
  have c4: "firstMatch mapping line = Some label \<longrightarrow>
        parseConsoleErrors byLabel mapping line signal = byLabel label"
    by (simp add: parseConsoleErrors_def)
  have c5: "firstMatch mapping line = None \<longrightarrow>
        parseConsoleErrors byLabel mapping line signal = signal"
    by (simp add: parseConsoleErrors_def)
  have c6: "(\<forall>l\<in>set later. firstMatch mapping l = None) \<longrightarrow>
        feed byLabel mapping later signal = signal"
    by (simp add: feed_no_match)
  have c7: "firstMatch mapping line = Some label \<and> (\<forall>l\<in>set later. firstMatch mapping l = None)
        \<longrightarrow> feed byLabel mapping (earlier @ line # later) signal = byLabel label"
    by (simp add: feed_append feed_no_match parseConsoleErrors_def)
  have c8: "feed byLabel [] lines signal = signal"
    by (rule feed_no_match) simp
  show ?thesis
    by (intro conjI c1 c2 c3 c4 c5 c6 c7 c8)
qed

text \<open>
  The test \<^verbatim>\<open>TestParseConsoleErrors\<close> of the package, run on the model: its three lines
  in turn leave the signal undefined, set it to the configuration category, and set it
  to the build category.
\<close>

lemma TestParseConsoleErrors_line1:
  "firstMatch
     [(''config'', [''configuration error 1'', ''configuration error 2'']),
      (''build'', [''build failed''])] ''this is an error'' = None"
  by code_simp

lemma TestParseConsoleErrors_line2:
  "firstMatch
     [(''config'', [''configuration error 1'', ''configuration error 2'']),
      (''build'', [''build failed''])] ''this is configuration error 2'' = Some ''config''"
  by code_simp

lemma TestParseConsoleErrors_line3:
  "firstMatch
     [(''config'', [''configuration error 1'', ''configuration error 2'']),
      (''build'', [''build failed''])] ''the build failed'' = Some ''build''"
  by code_simp

lemma TestParseConsoleErrors_line3_other_order:
  "firstMatch
     [(''build'', [''build failed'']),
      (''config'', [''configuration error 1'', ''configuration error 2''])] ''the build failed'' = Some ''build''"
  by code_simp

lemma TestParseConsoleErrors_sequence:
  "feed ErrorCategoryByString
     [(''config'', [''configuration error 1'', ''configuration error 2'']),
      (''build'', [''build failed''])]
     [''this is an error''] ErrorUndefined = ErrorUndefined
   \<and> feed ErrorCategoryByString
     [(''config'', [''configuration error 1'', ''configuration error 2'']),
      (''build'', [''build failed''])]
     [''this is an error'', ''this is configuration error 2''] ErrorUndefined
       = ErrorConfiguration
   \<and> feed ErrorCategoryByString
     [(''config'', [''configuration error 1'', ''configuration error 2'']),
      (''build'', [''build failed''])]
     [''this is an error'', ''this is configuration error 2'', ''the build failed'']
     ErrorUndefined = ErrorBuild"
  by (simp only: feed.simps parseConsoleErrors_def TestParseConsoleErrors_line1
        TestParseConsoleErrors_line2 TestParseConsoleErrors_line3 option.case ErrorCategoryByString_def)
     simp

theorem classifier_first_match_sticky_witness:
  "firstMatch [(''config'', [''bad config''])] ''this is a bad config error'' = Some ''config''
   \<and> firstMatch [(''config'', [''bad config''])] ''all fine'' = None
   \<and> firstMatch [(''config'', [''bad config''])] ''this is a Bad Config error'' = None
   \<and> feed ErrorCategoryByString [(''config'', [''bad config''])]
        ([] @ ''this is a bad config error'' # [''all fine'']) ErrorUndefined
       = ErrorConfiguration"
proof -
  have a: "firstMatch [(''config'', [''bad config''])] ''this is a bad config error''
             = Some ''config''"
    by simp
  have b: "firstMatch [(''config'', [''bad config''])] ''all fine'' = None"
    by simp
  have c: "firstMatch [(''config'', [''bad config''])] ''this is a Bad Config error'' = None"
    by simp
  have "feed ErrorCategoryByString [(''config'', [''bad config''])]
        ([] @ ''this is a bad config error'' # [''all fine'']) ErrorUndefined
       = ErrorCategoryByString ''config''"
    by (rule classifier_first_match_sticky
               [where mapping = "[(''config'', [''bad config''])]"
                  and later = "[''all fine'']" and byLabel = ErrorCategoryByString,
                THEN conjunct2, THEN conjunct2, THEN conjunct2, THEN conjunct2,
                THEN conjunct2, THEN conjunct2, THEN conjunct1, THEN mp])
       (simp only: a b list.set ball_simps simp_thms)
  then have d: "feed ErrorCategoryByString [(''config'', [''bad config''])]
        ([] @ ''this is a bad config error'' # [''all fine'']) ErrorUndefined
       = ErrorConfiguration"
    by (simp only: ErrorCategoryByString_def) simp
  show ?thesis
    by (intro conjI a b c d)
qed

end
